theory Spec2Isabelle
  imports Complex_Main
begin

section \<open>Python values, exceptions and container operations\<close>

text \<open>
  The serving code of the repository is \<^verbatim>\<open>app/predict.py\<close> (the class
  \<^verbatim>\<open>ModelService\<close>), \<^verbatim>\<open>app/main.py\<close> (the HTTP handlers) and
  \<^verbatim>\<open>app/schemas.py\<close> (the request and response shapes). Exceptions are values:
  an operation returns \<open>Inl\<close> of the exception or \<open>Inr\<close> of its result. An exception
  carries its class and the text that \<^verbatim>\<open>str(e)\<close> gives.
\<close>

datatype exn_kind = RuntimeError | FileNotFoundError | IndexError | TypeError
  | AttributeError | ValueError

datatype py_error = Exn exn_kind string

fun str_exn :: "py_error \<Rightarrow> string" where
  "str_exn (Exn k msg) = msg"

text \<open>
  The values a metadata dictionary holds: \<^verbatim>\<open>train.py\<close> stores two lists of
  strings, a float and an int; \<^verbatim>\<open>health_check\<close> adds the string default
  \<^verbatim>\<open>"unknown"\<close>. Floats are reals: the serving code never computes with them, it
  only passes them on (\<^verbatim>\<open>float(prob)\<close> is the identity on a float).
\<close>

datatype py_value = PyList "string list" | PyStr string | PyFloat real | PyInt int

text \<open>A dictionary keeps its keys in insertion order; \<^verbatim>\<open>d.get(k, default)\<close>
  never raises.\<close>

type_synonym meta = "(string \<times> py_value) list"

definition dict_get :: "('k \<times> 'v) list \<Rightarrow> 'k \<Rightarrow> 'v \<Rightarrow> 'v" where
  "dict_get d k dflt = (case map_of d k of None \<Rightarrow> dflt | Some v \<Rightarrow> v)"

text \<open>\<^verbatim>\<open>d[k] = v\<close>: an existing key keeps its position and takes the new value,
  a new key goes to the end.\<close>

fun dict_set :: "'k \<Rightarrow> 'v \<Rightarrow> ('k \<times> 'v) list \<Rightarrow> ('k \<times> 'v) list" where
  "dict_set k v [] = [(k, v)]"
| "dict_set k v ((k', v') # d) = (if k' = k then (k, v) # d else (k', v') # dict_set k v d)"

text \<open>The comprehension \<^verbatim>\<open>{k: v for k, v in pairs}\<close> inserts the pairs from
  left to right into an empty dictionary.\<close>

definition dict_of :: "('k \<times> 'v) list \<Rightarrow> ('k \<times> 'v) list" where
  "dict_of pairs = fold (\<lambda>(k, v) d. dict_set k v d) pairs []"

text \<open>A name between single quotes, as Python's messages show type and attribute
  names.\<close>

definition quoted :: "string \<Rightarrow> string" where
  "quoted s = [CHR 0x27] @ s @ [CHR 0x27]"

text \<open>Decimal text of an integer, as \<^verbatim>\<open>str\<close> prints it.\<close>

fun show_nat :: "nat \<Rightarrow> string" where
  "show_nat n = (if n < 10 then [''0123456789'' ! n]
     else show_nat (n div 10) @ [''0123456789'' ! (n mod 10)])"

definition show_int :: "int \<Rightarrow> string" where
  "show_int i = (if i < 0 then ''-'' @ show_nat (nat (- i)) else show_nat (nat i))"

text \<open>
  Subscripting a sequence of length \<open>n\<close> with an integer: a negative index counts from
  the end, and an index outside \<open>-n \<dots> n-1\<close> raises \<^verbatim>\<open>IndexError\<close> (here
  \<open>None\<close>).
\<close>

definition norm_index :: "nat \<Rightarrow> int \<Rightarrow> nat option" where
  "norm_index n i =
     (if 0 \<le> i \<and> i < int n then Some (nat i)
      else if i < 0 \<and> - int n \<le> i then Some (nat (int n + i))
      else None)"

text \<open>\<^verbatim>\<open>class_names[prediction]\<close> on a metadata value. A string is a sequence
  of one-character strings; a number is not subscriptable.\<close>

fun getitem :: "py_value \<Rightarrow> int \<Rightarrow> py_error + string" where
  "getitem (PyList xs) i =
     (case norm_index (length xs) i of
        None \<Rightarrow> Inl (Exn IndexError ''list index out of range'')
      | Some j \<Rightarrow> Inr (xs ! j))"
| "getitem (PyStr s) i =
     (case norm_index (length s) i of
        None \<Rightarrow> Inl (Exn IndexError ''string index out of range'')
      | Some j \<Rightarrow> Inr [s ! j])"
| "getitem (PyFloat x) i = Inl (Exn TypeError (quoted ''float'' @ '' object is not subscriptable''))"
| "getitem (PyInt n) i = Inl (Exn TypeError (quoted ''int'' @ '' object is not subscriptable''))"

text \<open>\<^verbatim>\<open>probabilities[prediction]\<close> on a one-dimensional numpy array.\<close>

definition ndarray_getitem :: "real list \<Rightarrow> int \<Rightarrow> py_error + real" where
  "ndarray_getitem ps i =
     (case norm_index (length ps) i of
        None \<Rightarrow> Inl (Exn IndexError (''index '' @ show_int i
                  @ '' is out of bounds for axis 0 with size '' @ show_nat (length ps)))
      | Some j \<Rightarrow> Inr (ps ! j))"

text \<open>\<^verbatim>\<open>zip(class_names, probabilities)\<close>: pairs up to the shorter of the two.
  The two numeric cases are never reached by \<open>predict\<close>, which has subscripted
  \<^verbatim>\<open>class_names\<close> before.\<close>

fun zip_names :: "py_value \<Rightarrow> real list \<Rightarrow> (string \<times> real) list" where
  "zip_names (PyList xs) ps = zip xs ps"
| "zip_names (PyStr s) ps = zip (map (\<lambda>c. [c]) s) ps"
| "zip_names (PyFloat x) ps = []"
| "zip_names (PyInt n) ps = []"

section \<open>The model object, the artifacts and the service state\<close>

text \<open>
  The classifier is an object of the machine-learning library, opaque to this
  repository. \<open>m_predict m features\<close> stands for
  \<^verbatim>\<open>model.predict(X)[0]\<close> and \<open>m_predict_proba m features\<close> for
  \<^verbatim>\<open>model.predict_proba(X)[0]\<close>, with
  \<^verbatim>\<open>X = np.array(features).reshape(1, -1)\<close>; either call may raise. The two are
  separate calls: nothing in the repository relates the index one returns to the
  probabilities the other returns.
\<close>

record sk_model =
  m_predict :: "real list \<Rightarrow> py_error + int"
  m_predict_proba :: "real list \<Rightarrow> py_error + real list"

text \<open>The two artifact files at their fixed paths; \<open>None\<close> is an absent file.\<close>

record files =
  model_file :: "sk_model option"
  metadata_file :: "meta option"

definition model_path :: string where
  "model_path = ''model/iris_model.joblib''"

definition metadata_path :: string where
  "metadata_path = ''model/metadata.joblib''"

text \<open>
  What the process does besides computing: log records and file operations, in order.
  A log message is the list of the pieces of its f-string; a piece that prints a
  dictionary or floats keeps the value instead of its text.
\<close>

datatype level = INFO | WARNING | ERROR

datatype fragment = Lit string | Repr_meta meta | Repr_floats "real list" | Fmt_4f real

datatype event = Path_exists string | Joblib_load string | Log level "fragment list"

text \<open>The singleton \<^verbatim>\<open>ModelService\<close>: \<open>model\<close> is \<^verbatim>\<open>_model\<close>,
  \<open>metadata\<close> is \<^verbatim>\<open>_metadata\<close> (both \<^verbatim>\<open>None\<close> at start), and \<open>trace\<close>
  collects the events.\<close>

record state =
  model :: "sk_model option"
  metadata :: "meta option"
  trace :: "event list"

definition initial :: state where
  "initial = \<lparr>model = None, metadata = None, trace = []\<rparr>"

definition emit :: "event \<Rightarrow> state \<Rightarrow> state" where
  "emit e s = s\<lparr>trace := trace s @ [e]\<rparr>"

section \<open>ModelService\<close>

definition load_model :: "files \<Rightarrow> state \<Rightarrow> (py_error + unit) \<times> state" where
  "load_model fs s =
     (case model s of
        Some m \<Rightarrow> (Inr (), emit (Log INFO [Lit ''Model already loaded'']) s)
      | None \<Rightarrow>
          (let s1 = emit (Path_exists model_path) s in
           case model_file fs of
             None \<Rightarrow>
               (Inl (Exn FileNotFoundError (''Model file not found at '' @ model_path)), s1)
           | Some m \<Rightarrow>
               (let s2 = emit (Log INFO [Lit (''Loading model from '' @ model_path)]) s1;
                    s3 = (emit (Joblib_load model_path) s2)\<lparr>model := Some m\<rparr>;
                    s4 = emit (Path_exists metadata_path) s3;
                    s5 = (case metadata_file fs of
                            Some md \<Rightarrow>
                              emit (Log INFO [Lit ''Loaded metadata: '', Repr_meta md])
                                ((emit (Joblib_load metadata_path) s4)\<lparr>metadata := Some md\<rparr>)
                          | None \<Rightarrow>
                              (emit (Log WARNING [Lit ''Metadata file not found'']) s4)
                                \<lparr>metadata := Some []\<rparr>)
                in (Inr (), emit (Log INFO [Lit ''Model loaded successfully'']) s5))))"

definition synthetic_names :: py_value where
  "synthetic_names = PyList [''class_0'', ''class_1'', ''class_2'']"

type_synonym prediction = "string \<times> real \<times> (string \<times> real) list"

definition predict :: "state \<Rightarrow> real list \<Rightarrow> (py_error + prediction) \<times> state" where
  "predict s features =
     (case model s of
        None \<Rightarrow> (Inl (Exn RuntimeError ''Model not loaded. Call load_model() first.''), s)
      | Some m \<Rightarrow>
          (case m_predict m features of
             Inl e \<Rightarrow> (Inl e, s)
           | Inr prediction \<Rightarrow>
          (case m_predict_proba m features of
             Inl e \<Rightarrow> (Inl e, s)
           | Inr probabilities \<Rightarrow>
          (case metadata s of
             None \<Rightarrow> (Inl (Exn AttributeError (quoted ''NoneType''
                      @ '' object has no attribute '' @ quoted ''get'')), s)
           | Some md \<Rightarrow>
          (let class_names = dict_get md ''target_names'' synthetic_names in
           case getitem class_names prediction of
             Inl e \<Rightarrow> (Inl e, s)
           | Inr predicted_class \<Rightarrow>
          (case ndarray_getitem probabilities prediction of
             Inl e \<Rightarrow> (Inl e, s)
           | Inr confidence \<Rightarrow>
               (Inr (predicted_class, confidence,
                     dict_of (zip_names class_names probabilities)), s)))))))"

fun predict_batch :: "state \<Rightarrow> real list list \<Rightarrow> (py_error + prediction list) \<times> state" where
  "predict_batch s [] = (Inr [], s)"
| "predict_batch s (features # features_list) =
     (case predict s features of
        (Inl e, s1) \<Rightarrow> (Inl e, s1)
      | (Inr r, s1) \<Rightarrow>
          (case predict_batch s1 features_list of
             (Inl e, s2) \<Rightarrow> (Inl e, s2)
           | (Inr rs, s2) \<Rightarrow> (Inr (r # rs), s2)))"

definition get_metadata :: "state \<Rightarrow> (py_error + meta) \<times> state" where
  "get_metadata s =
     (case metadata s of
        None \<Rightarrow> (Inr [], s)
      | Some md \<Rightarrow> (if md \<noteq> [] then (Inr md, s) else (Inr [], s)))"

definition is_loaded :: "state \<Rightarrow> (py_error + bool) \<times> state" where
  "is_loaded s = (case model s of None \<Rightarrow> (Inr False, s) | Some m \<Rightarrow> (Inr True, s))"

section \<open>The HTTP handlers\<close>

text \<open>The request and response shapes of \<^verbatim>\<open>schemas.py\<close>. The framework checks
  \<open>valid_input\<close> (each field between 0 and 10) before it calls a handler.\<close>

record PredictionInput =
  sepal_length :: real
  sepal_width :: real
  petal_length :: real
  petal_width :: real

definition valid_input :: "PredictionInput \<Rightarrow> bool" where
  "valid_input i \<longleftrightarrow>
     0 \<le> sepal_length i \<and> sepal_length i \<le> 10 \<and> 0 \<le> sepal_width i \<and> sepal_width i \<le> 10 \<and>
     0 \<le> petal_length i \<and> petal_length i \<le> 10 \<and> 0 \<le> petal_width i \<and> petal_width i \<le> 10"

record PredictionOutput =
  predicted_class :: string
  confidence :: real
  probabilities :: "(string \<times> real) list"

record HealthResponse =
  status :: string
  model_loaded :: bool
  model_info :: "(string \<times> py_value) list"

datatype http_error = HTTPException (status_code: int) (detail: string)

definition features_of :: "PredictionInput \<Rightarrow> real list" where
  "features_of i = [sepal_length i, sepal_width i, petal_length i, petal_width i]"

text \<open>\<^verbatim>\<open>GET /health\<close>. It has no handler of its own for exceptions: one raised by
  an accessor would leave the function.\<close>

definition health_check :: "state \<Rightarrow> (py_error + HealthResponse) \<times> state" where
  "health_check s =
     (case get_metadata s of
        (Inl e, s1) \<Rightarrow> (Inl e, s1)
      | (Inr md, s1) \<Rightarrow>
     (case is_loaded s1 of
        (Inl e, s2) \<Rightarrow> (Inl e, s2)
      | (Inr l1, s2) \<Rightarrow>
     (case is_loaded s2 of
        (Inl e, s3) \<Rightarrow> (Inl e, s3)
      | (Inr l2, s3) \<Rightarrow>
          (Inr \<lparr>status = (if l1 then ''healthy'' else ''unhealthy''),
                model_loaded = l2,
                model_info =
                  [(''accuracy'', dict_get md ''accuracy'' (PyStr ''unknown'')),
                   (''features'', dict_get md ''feature_names'' (PyList [])),
                   (''classes'', dict_get md ''target_names'' (PyList [])),
                   (''n_features'', dict_get md ''n_features'' (PyInt 0))]\<rparr>, s3))))"

text \<open>\<^verbatim>\<open>POST /predict\<close> (the function \<^verbatim>\<open>predict\<close> of \<^verbatim>\<open>main.py\<close>):
  the whole body is inside \<^verbatim>\<open>try\<close>, and \<^verbatim>\<open>except Exception\<close> turns whatever
  is raised into an \<^verbatim>\<open>HTTPException\<close> with status 500.\<close>

definition api_predict :: "state \<Rightarrow> PredictionInput \<Rightarrow> (http_error + PredictionOutput) \<times> state" where
  "api_predict s input_data =
     (let features = features_of input_data;
          s1 = emit (Log INFO [Lit ''Predicting for features: '', Repr_floats features]) s
      in case predict s1 features of
           (Inr (pc, conf, probs), s2) \<Rightarrow>
             (Inr \<lparr>predicted_class = pc, confidence = conf, probabilities = probs\<rparr>,
              emit (Log INFO [Lit ''Prediction: '', Lit pc, Lit '' (confidence: '',
                              Fmt_4f conf, Lit '')'']) s2)
         | (Inl e, s2) \<Rightarrow>
             (Inl (HTTPException 500 (''Prediction failed: '' @ str_exn e)),
              emit (Log ERROR [Lit ''Prediction error: '', Lit (str_exn e)]) s2))"

text \<open>\<^verbatim>\<open>POST /predict/batch\<close> (the function \<^verbatim>\<open>predict_batch\<close> of
  \<^verbatim>\<open>main.py\<close>).\<close>

definition api_predict_batch ::
  "state \<Rightarrow> PredictionInput list \<Rightarrow> (http_error + PredictionOutput list) \<times> state" where
  "api_predict_batch s instances =
     (let features_list = map features_of instances;
          s1 = emit (Log INFO [Lit ''Batch prediction for '',
                               Lit (show_nat (length features_list)), Lit '' instances'']) s
      in case predict_batch s1 features_list of
           (Inr results, s2) \<Rightarrow>
             (Inr (map (\<lambda>(pc, conf, probs).
                     \<lparr>predicted_class = pc, confidence = conf, probabilities = probs\<rparr>) results), s2)
         | (Inl e, s2) \<Rightarrow>
             (Inl (HTTPException 500 (''Batch prediction failed: '' @ str_exn e)),
              emit (Log ERROR [Lit ''Batch prediction error: '', Lit (str_exn e)]) s2))"

section \<open>Example artifacts\<close>

text \<open>
  Concrete inputs for the closed instances below. \<open>iris_metadata\<close> is the record that
  \<^verbatim>\<open>train.py\<close> writes (names of the bundled dataset, four features); a
  \<open>const_model\<close> answers every feature vector with the same index and the same
  probabilities; \<open>reference_sample\<close> is the example request of \<^verbatim>\<open>schemas.py\<close>.
\<close>

definition const_model :: "int \<Rightarrow> real list \<Rightarrow> sk_model" where
  "const_model i ps = \<lparr>m_predict = (\<lambda>x. Inr i), m_predict_proba = (\<lambda>x. Inr ps)\<rparr>"

definition iris_metadata :: meta where
  "iris_metadata =
     [(''feature_names'', PyList [''sepal length (cm)'', ''sepal width (cm)'',
                                  ''petal length (cm)'', ''petal width (cm)'']),
      (''target_names'', PyList [''setosa'', ''versicolor'', ''virginica'']),
      (''accuracy'', PyFloat (9 / 10)),
      (''n_features'', PyInt 4)]"

definition reference_sample :: PredictionInput where
  "reference_sample =
     \<lparr>sepal_length = 51 / 10, sepal_width = 35 / 10, petal_length = 14 / 10,
      petal_width = 2 / 10\<rparr>"

definition artifacts_complete :: files where
  "artifacts_complete =
     \<lparr>model_file = Some (const_model 0 [1, 0, 0]), metadata_file = Some iris_metadata\<rparr>"

definition artifacts_no_metadata :: files where
  "artifacts_no_metadata = \<lparr>model_file = Some (const_model 0 [1, 0, 0]), metadata_file = None\<rparr>"

definition artifacts_missing :: files where
  "artifacts_missing = \<lparr>model_file = None, metadata_file = Some iris_metadata\<rparr>"

text \<open>A model object whose two methods disagree: it answers index 0 while its
  probabilities put the most weight on index 1.\<close>

definition artifacts_skewed :: files where
  "artifacts_skewed =
     \<lparr>model_file = Some (const_model 0 [1 / 5, 4 / 5, 0]),
      metadata_file = Some iris_metadata\<rparr>"

section \<open>Basic facts about the operations\<close>

lemma emit_frame:
  "model (emit e s) = model s" "metadata (emit e s) = metadata s"
  "trace (emit e s) = trace s @ [e]"
  by (simp_all add: emit_def)

lemma predict_keeps_state: "snd (predict s x) = s"
  unfolding predict_def Let_def
  by (simp split: option.split sum.split)

lemma predict_ignores_trace: "fst (predict (emit e s) x) = fst (predict s x)"
  unfolding predict_def Let_def emit_def
  by (simp split: option.split sum.split)

lemma predict_pair: "\<exists>r. predict s x = (r, s)"
  using predict_keeps_state [of s x] by (metis prod.collapse)

lemma predict_batch_keeps_state: "snd (predict_batch s fl) = s"
proof (induction fl)
  case Nil
  show ?case by simp
next
  case (Cons f fl)
  obtain r where r: "predict s f = (r, s)" using predict_pair by blast
  obtain rs where rs: "predict_batch s fl = (rs, s)"
    using Cons.IH by (metis prod.collapse)
  show ?case
    by (simp add: r rs split: sum.split)
qed

lemma predict_batch_pair: "\<exists>r. predict_batch s fl = (r, s)"
  using predict_batch_keeps_state [of s fl] by (metis prod.collapse)

lemma get_metadata_eq:
  "get_metadata s = (Inr (case metadata s of None \<Rightarrow> [] | Some md \<Rightarrow> md), s)"
  by (simp add: get_metadata_def split: option.split)

lemma is_loaded_eq: "is_loaded s = (Inr (model s \<noteq> None), s)"
  by (simp add: is_loaded_def split: option.split)

lemma health_check_keeps_state: "snd (health_check s) = s"
  by (simp add: health_check_def get_metadata_eq is_loaded_eq)

lemma api_predict_frame:
  "model (snd (api_predict s i)) = model s \<and> metadata (snd (api_predict s i)) = metadata s"
proof -
  let ?s1 = "emit (Log INFO [Lit ''Predicting for features: '', Repr_floats (features_of i)]) s"
  obtain r where r: "predict ?s1 (features_of i) = (r, ?s1)" using predict_pair by blast
  show ?thesis
  proof (cases r)
    case (Inl e)
    then show ?thesis by (simp add: api_predict_def Let_def r emit_frame)
  next
    case (Inr p)
    obtain pc conf probs where p: "p = (pc, conf, probs)" by (cases p) auto
    show ?thesis by (simp add: api_predict_def Let_def r Inr p emit_frame)
  qed
qed

lemma api_predict_batch_frame:
  "model (snd (api_predict_batch s is)) = model s \<and>
   metadata (snd (api_predict_batch s is)) = metadata s"
proof -
  let ?s1 = "emit (Log INFO [Lit ''Batch prediction for '',
                               Lit (show_nat (length is)), Lit '' instances'']) s"
  obtain r where r: "predict_batch ?s1 (map features_of is) = (r, ?s1)"
    using predict_batch_pair by blast
  show ?thesis
  proof (cases r)
    case (Inl e)
    then show ?thesis
      by (simp add: api_predict_batch_def Let_def r emit_frame del: show_nat.simps)
  next
    case (Inr p)
    then show ?thesis
      by (simp add: api_predict_batch_def Let_def r emit_frame del: show_nat.simps)
  qed
qed

section \<open>Use before load\<close>

text \<open>
  Claim C6. For every feature vector, \<open>predict\<close> on a service whose model is not loaded
  raises the state error (a \<^verbatim>\<open>RuntimeError\<close>) instead of returning a result, and
  the state it leaves is the state it was called in.
\<close>

theorem predict_before_load:
  "model s = None \<Longrightarrow>
     predict s features =
       (Inl (Exn RuntimeError ''Model not loaded. Call load_model() first.''), s)"
  by (simp add: predict_def)

theorem predict_before_load_witness:
  "model initial = None \<and>
   predict initial (features_of reference_sample) =
     (Inl (Exn RuntimeError ''Model not loaded. Call load_model() first.''), initial)"
  using predict_before_load [of initial "features_of reference_sample"]
  by (simp add: initial_def)

section \<open>Loading the artifacts\<close>

lemma load_model_loaded:
  "model s = Some m \<Longrightarrow>
   load_model fs s = (Inr (), emit (Log INFO [Lit ''Model already loaded'']) s)"
  by (simp add: load_model_def)

lemma load_model_absent:
  "model s = None \<Longrightarrow> model_file fs = None \<Longrightarrow>
   load_model fs s =
     (Inl (Exn FileNotFoundError ''Model file not found at model/iris_model.joblib''),
      emit (Path_exists model_path) s)"
  by (simp add: load_model_def Let_def model_path_def)

lemma load_model_present:
  "model s = None \<Longrightarrow> model_file fs = Some m \<Longrightarrow>
   fst (load_model fs s) = Inr () \<and> model (snd (load_model fs s)) = Some m \<and>
   metadata (snd (load_model fs s)) =
     Some (case metadata_file fs of None \<Rightarrow> [] | Some md \<Rightarrow> md)"
  by (simp add: load_model_def Let_def emit_frame split: option.split)

lemma load_model_trace_no_metadata:
  "model s = None \<Longrightarrow> model_file fs = Some m \<Longrightarrow> metadata_file fs = None \<Longrightarrow>
   trace (snd (load_model fs s)) = trace s @
     [Path_exists model_path, Log INFO [Lit (''Loading model from '' @ model_path)],
      Joblib_load model_path, Path_exists metadata_path,
      Log WARNING [Lit ''Metadata file not found''],
      Log INFO [Lit ''Model loaded successfully'']]"
  by (simp add: load_model_def Let_def emit_def)

text \<open>
  Claim C4. \<open>load_model\<close> is idempotent. In every state whose model is loaded, it
  returns without error, leaves the model and the metadata as they are, and adds to the
  trace one log record and nothing else: no existence check and no file load. Hence, from
  any state, two calls in a row give the outcome, the model and the metadata of one call.
\<close>

theorem load_model_idempotent:
  "(model s \<noteq> None \<longrightarrow>
      load_model fs s = (Inr (), emit (Log INFO [Lit ''Model already loaded'']) s) \<and>
      model (snd (load_model fs s)) = model s \<and>
      metadata (snd (load_model fs s)) = metadata s \<and>
      trace (snd (load_model fs s)) = trace s @ [Log INFO [Lit ''Model already loaded'']]) \<and>
   fst (load_model fs (snd (load_model fs s))) = fst (load_model fs s) \<and>
   model (snd (load_model fs (snd (load_model fs s)))) = model (snd (load_model fs s)) \<and>
   metadata (snd (load_model fs (snd (load_model fs s)))) = metadata (snd (load_model fs s))"
proof (cases "model s")
  case (Some m)
  then show ?thesis by (simp add: load_model_loaded emit_frame)
next
  case None
  show ?thesis
  proof (cases "model_file fs")
    case absent: None
    show ?thesis
      by (simp add: None absent load_model_absent emit_frame)
  next
    case (Some m)
    note p = load_model_present [OF None Some]
    from p have l: "model (snd (load_model fs s)) = Some m" by simp
    obtain s1 where s1: "load_model fs s = (Inr (), s1)"
      using p by (cases "load_model fs s") auto
    with l have m1: "model s1 = Some m" by simp
    show ?thesis
      by (simp add: None s1 load_model_loaded [OF m1] emit_frame)
  qed
qed

theorem load_model_idempotent_witness:
  "model (snd (load_model artifacts_complete initial)) \<noteq> None \<and>
   load_model artifacts_complete (snd (load_model artifacts_complete initial)) =
     (Inr (), emit (Log INFO [Lit ''Model already loaded''])
                (snd (load_model artifacts_complete initial))) \<and>
   metadata (snd (load_model artifacts_complete (snd (load_model artifacts_complete initial))))
     = Some iris_metadata"
  using load_model_idempotent [of "snd (load_model artifacts_complete initial)" artifacts_complete]
  by (simp add: load_model_def Let_def initial_def artifacts_complete_def emit_def)

text \<open>
  Claim C5. On a service whose model is not loaded, \<open>load_model\<close> raises
  \<^verbatim>\<open>FileNotFoundError\<close> exactly when the model file is absent, and then the model
  stays unloaded and the metadata is untouched. When the model file is present the load
  completes: with the metadata file present the metadata is its content, and with the
  metadata file absent a warning is logged and the metadata is the empty dictionary.
\<close>

theorem load_model_artifacts:
  assumes "model s = None"
  shows "((\<exists>msg. fst (load_model fs s) = Inl (Exn FileNotFoundError msg)) \<longleftrightarrow>
            model_file fs = None) \<and>
         (model_file fs = None \<longrightarrow>
            fst (load_model fs s) =
              Inl (Exn FileNotFoundError ''Model file not found at model/iris_model.joblib'') \<and>
            model (snd (load_model fs s)) = None \<and>
            metadata (snd (load_model fs s)) = metadata s) \<and>
         (\<forall>m. model_file fs = Some m \<longrightarrow>
            fst (load_model fs s) = Inr () \<and>
            model (snd (load_model fs s)) = Some m \<and>
            (\<forall>md. metadata_file fs = Some md \<longrightarrow> metadata (snd (load_model fs s)) = Some md) \<and>
            (metadata_file fs = None \<longrightarrow>
               metadata (snd (load_model fs s)) = Some [] \<and>
               Log WARNING [Lit ''Metadata file not found'']
                 \<in> set (trace (snd (load_model fs s)))))"
proof (cases "model_file fs")
  case None
  show ?thesis
    by (simp add: None load_model_absent [OF assms None] emit_frame assms)
next
  case (Some m)
  note p = load_model_present [OF assms Some]
  have w: "metadata_file fs = None \<Longrightarrow>
      Log WARNING [Lit ''Metadata file not found''] \<in> set (trace (snd (load_model fs s)))"
    by (simp add: load_model_trace_no_metadata [OF assms Some])
  show ?thesis
    using p w by (auto simp: Some)
qed

theorem load_model_artifacts_witness:
  "model initial = None \<and>
   fst (load_model artifacts_missing initial) =
     Inl (Exn FileNotFoundError ''Model file not found at model/iris_model.joblib'') \<and>
   model (snd (load_model artifacts_missing initial)) = None \<and>
   fst (load_model artifacts_no_metadata initial) = Inr () \<and>
   model (snd (load_model artifacts_no_metadata initial)) = Some (const_model 0 [1, 0, 0]) \<and>
   metadata (snd (load_model artifacts_no_metadata initial)) = Some []"
  using load_model_artifacts [of initial artifacts_missing]
    load_model_artifacts [of initial artifacts_no_metadata]
  by (simp add: initial_def artifacts_missing_def artifacts_no_metadata_def)

section \<open>The accessors\<close>

text \<open>
  Claim C10. \<open>get_metadata\<close> returns in every state, never raises and never returns
  \<^verbatim>\<open>None\<close>: its result is the stored dictionary, or the empty dictionary while
  \<^verbatim>\<open>_metadata\<close> is still unset. So \<open>health_check\<close> returns a response in every
  state, also before any load.
\<close>

theorem get_metadata_total:
  "get_metadata s = (Inr (case metadata s of None \<Rightarrow> [] | Some md \<Rightarrow> md), s) \<and>
   (\<exists>h. health_check s = (Inr h, s))"
  by (simp add: get_metadata_eq health_check_def is_loaded_eq)

theorem get_metadata_total_witness:
  "metadata initial = None \<and> get_metadata initial = (Inr [], initial) \<and>
   (\<exists>h. health_check initial = (Inr h, initial))"
  using get_metadata_total [of initial] by (simp add: initial_def)

section \<open>The loaded example services\<close>

lemma loaded_complete:
  "model (snd (load_model artifacts_complete initial)) = Some (const_model 0 [1, 0, 0])"
  "metadata (snd (load_model artifacts_complete initial)) = Some iris_metadata"
  "fst (load_model artifacts_complete initial) = Inr ()"
  by (simp_all add: load_model_def Let_def initial_def artifacts_complete_def emit_def)

lemma loaded_no_metadata:
  "model (snd (load_model artifacts_no_metadata initial)) = Some (const_model 0 [1, 0, 0])"
  "metadata (snd (load_model artifacts_no_metadata initial)) = Some []"
  "fst (load_model artifacts_no_metadata initial) = Inr ()"
  by (simp_all add: load_model_def Let_def initial_def artifacts_no_metadata_def emit_def)

lemma predict_loaded_complete:
  "fst (predict (snd (load_model artifacts_complete initial)) x) =
     Inr (''setosa'', 1, [(''setosa'', 1), (''versicolor'', 0), (''virginica'', 0)])"
  by (simp add: predict_def loaded_complete const_model_def iris_metadata_def dict_get_def
      synthetic_names_def norm_index_def ndarray_getitem_def dict_of_def Let_def)

section \<open>The serving path\<close>

lemma load_model_success_loaded:
  assumes "fst (load_model fs s0) = Inr ()"
  shows "model (snd (load_model fs s0)) \<noteq> None"
proof (cases "model s0")
  case (Some m)
  then show ?thesis by (simp add: load_model_loaded emit_frame)
next
  case None
  show ?thesis
  proof (cases "model_file fs")
    case absent: None
    with assms show ?thesis by (simp add: load_model_absent [OF None absent])
  next
    case (Some m)
    then show ?thesis using load_model_present [OF None Some] by simp
  qed
qed

text \<open>
  Claim C9. In the state \<open>s\<close> that a successful \<open>load_model\<close> leaves, the model is
  loaded, and no operation of the serving path changes the stored model or the stored
  metadata: \<open>predict\<close>, \<open>predict_batch\<close>, \<open>get_metadata\<close>, \<open>is_loaded\<close> and
  \<open>health_check\<close> return the state they were given, and the two prediction handlers
  only add log records to the trace.
\<close>

theorem serving_path_read_only:
  assumes "fst (load_model fs s0) = Inr ()" and "s = snd (load_model fs s0)"
  shows "model s \<noteq> None \<and>
         snd (predict s x) = s \<and>
         snd (predict_batch s xs) = s \<and>
         snd (get_metadata s) = s \<and>
         snd (is_loaded s) = s \<and>
         snd (health_check s) = s \<and>
         model (snd (api_predict s i)) = model s \<and>
         metadata (snd (api_predict s i)) = metadata s \<and>
         model (snd (api_predict_batch s is)) = model s \<and>
         metadata (snd (api_predict_batch s is)) = metadata s"
proof -
  have "model s \<noteq> None"
    using load_model_success_loaded [OF assms(1)] assms(2) by simp
  moreover have "snd (get_metadata s) = s" by (simp add: get_metadata_eq)
  moreover have "snd (is_loaded s) = s" by (simp add: is_loaded_eq)
  ultimately show ?thesis
    using predict_keeps_state [of s x] predict_batch_keeps_state [of s xs]
      health_check_keeps_state [of s] api_predict_frame [of s i]
      api_predict_batch_frame [of s "is"]
    by blast
qed

theorem serving_path_read_only_witness:
  "fst (load_model artifacts_complete initial) = Inr () \<and>
   model (snd (load_model artifacts_complete initial)) \<noteq> None \<and>
   snd (predict (snd (load_model artifacts_complete initial)) (features_of reference_sample))
     = snd (load_model artifacts_complete initial) \<and>
   metadata (snd (api_predict (snd (load_model artifacts_complete initial)) reference_sample))
     = Some iris_metadata"
proof -
  have l: "fst (load_model artifacts_complete initial) = Inr ()"
    by (simp add: load_model_def Let_def initial_def artifacts_complete_def)
  have m: "metadata (snd (load_model artifacts_complete initial)) = Some iris_metadata"
    by (simp add: load_model_def Let_def initial_def artifacts_complete_def emit_def)
  show ?thesis
    using l m serving_path_read_only [OF l refl, of "features_of reference_sample" "[]"
        reference_sample "[]"]
    by simp
qed

text \<open>
  Claim C8. The handler of \<^verbatim>\<open>POST /predict\<close> has two outcomes. When the call of
  \<open>predict\<close> raises an exception \<open>e\<close>, whatever its class, the handler raises an
  \<^verbatim>\<open>HTTPException\<close> with status 500 whose detail ends with the text of \<open>e\<close>; this
  includes the state error of a service that is not loaded. Otherwise it returns the
  three results of \<open>predict\<close> as a \<^verbatim>\<open>PredictionOutput\<close>. No exception of the
  handler has a status other than 500.
\<close>

theorem api_predict_outcome:
  "(\<forall>e. fst (predict s (features_of i)) = Inl e \<longrightarrow>
        fst (api_predict s i) = Inl (HTTPException 500 (''Prediction failed: '' @ str_exn e))) \<and>
   (\<forall>pc conf probs. fst (predict s (features_of i)) = Inr (pc, conf, probs) \<longrightarrow>
        fst (api_predict s i) =
          Inr \<lparr>predicted_class = pc, confidence = conf, probabilities = probs\<rparr>) \<and>
   (model s = None \<longrightarrow>
        fst (api_predict s i) = Inl (HTTPException 500
          ''Prediction failed: Model not loaded. Call load_model() first.'')) \<and>
   (\<forall>h. fst (api_predict s i) = Inl h \<longrightarrow> status_code h = 500)"
proof -
  let ?ev = "Log INFO [Lit ''Predicting for features: '', Repr_floats (features_of i)]"
  let ?s1 = "emit ?ev s"
  obtain r where r: "predict ?s1 (features_of i) = (r, ?s1)" using predict_pair by blast
  have fr: "fst (predict s (features_of i)) = r"
    using predict_ignores_trace [of ?ev s "features_of i"] r by simp
  have unl: "model s = None \<Longrightarrow> r = Inl (Exn RuntimeError ''Model not loaded. Call load_model() first.'')"
    using fr by (simp add: predict_def)
  show ?thesis
  proof (cases r)
    case (Inl e)
    have "fst (api_predict s i) = Inl (HTTPException 500 (''Prediction failed: '' @ str_exn e))"
      by (simp add: api_predict_def Let_def r Inl)
    then show ?thesis using fr Inl unl by auto
  next
    case (Inr p)
    obtain pc conf probs where p: "p = (pc, conf, probs)" by (cases p) auto
    have "fst (api_predict s i) =
        Inr \<lparr>predicted_class = pc, confidence = conf, probabilities = probs\<rparr>"
      by (simp add: api_predict_def Let_def r Inr p)
    then show ?thesis using fr Inr p unl by auto
  qed
qed

theorem api_predict_outcome_witness:
  "model initial = None \<and>
   fst (predict initial (features_of reference_sample)) =
     Inl (Exn RuntimeError ''Model not loaded. Call load_model() first.'') \<and>
   fst (api_predict initial reference_sample) =
     Inl (HTTPException 500 ''Prediction failed: Model not loaded. Call load_model() first.'')"
  using api_predict_outcome [of initial reference_sample]
  by (simp add: initial_def predict_def)



section \<open>Batch prediction\<close>

lemma predict_batch_Cons:
  "fst (predict_batch s (f # fl)) =
     (case fst (predict s f) of
        Inl e \<Rightarrow> Inl e
      | Inr r \<Rightarrow> (case fst (predict_batch s fl) of Inl e \<Rightarrow> Inl e | Inr rs \<Rightarrow> Inr (r # rs)))"
proof -
  obtain r where r: "predict s f = (r, s)" using predict_pair by blast
  obtain q where q: "predict_batch s fl = (q, s)" using predict_batch_pair by blast
  show ?thesis by (simp add: r q split: sum.split)
qed

lemma predict_batch_Inr_iff:
  "fst (predict_batch s fl) = Inr rs \<longleftrightarrow> list_all2 (\<lambda>f r. fst (predict s f) = Inr r) fl rs"
proof (induction fl arbitrary: rs)
  case Nil
  show ?case by auto
next
  case (Cons f fl)
  let ?P = "\<lambda>f r. fst (predict s f) = Inr r"
  show ?case
  proof (cases rs)
    case Nil
    then show ?thesis
      by (simp add: predict_batch_Cons del: predict_batch.simps split: sum.split)
  next
    case rs: (Cons z zs)
    have ih: "fst (predict_batch s fl) = Inr zs \<longleftrightarrow> list_all2 ?P fl zs"
      by (rule Cons.IH)
    show ?thesis
    proof (cases "fst (predict s f)")
      case (Inl e)
      then show ?thesis
        by (simp add: predict_batch_Cons rs del: predict_batch.simps)
    next
      case r: (Inr r)
      show ?thesis
      proof (cases "fst (predict_batch s fl)")
        case (Inl e)
        with ih have "\<not> list_all2 ?P fl zs" by simp
        then show ?thesis
          by (simp add: predict_batch_Cons rs r Inl del: predict_batch.simps)
      next
        case q: (Inr qs)
        with ih have "list_all2 ?P fl zs \<longleftrightarrow> qs = zs" by simp
        then show ?thesis
          by (simp add: predict_batch_Cons rs r q del: predict_batch.simps)
      qed
    qed
  qed
qed

lemma predict_batch_first_error:
  "k < length fl \<Longrightarrow> fst (predict s (fl ! k)) = Inl e \<Longrightarrow>
   (\<forall>j<k. \<exists>r. fst (predict s (fl ! j)) = Inr r) \<Longrightarrow>
   fst (predict_batch s fl) = Inl e"
proof (induction fl arbitrary: k)
  case Nil
  then show ?case by simp
next
  case (Cons f fl)
  show ?case
  proof (cases k)
    case 0
    with Cons.prems show ?thesis by (simp add: predict_batch_Cons del: predict_batch.simps)
  next
    case (Suc k')
    from Cons.prems(3) Suc obtain r where r: "fst (predict s f) = Inr r"
      by (metis nth_Cons_0 zero_less_Suc)
    have "\<forall>j<k'. \<exists>r. fst (predict s (fl ! j)) = Inr r"
    proof (intro allI impI)
      fix j assume "j < k'"
      then have "Suc j < k" using Suc by simp
      with Cons.prems(3) show "\<exists>r. fst (predict s (fl ! j)) = Inr r"
        by (metis nth_Cons_Suc)
    qed
    with Cons.IH [of k'] Cons.prems Suc have "fst (predict_batch s fl) = Inl e" by simp
    then show ?thesis by (simp add: predict_batch_Cons r del: predict_batch.simps)
  qed
qed

text \<open>
  Claim C3. \<open>predict_batch\<close> is the sequential map of \<open>predict\<close>. It returns a list
  \<open>rs\<close> exactly when \<open>rs\<close> has the length of the input and its \<open>k\<close>-th element is the
  result of \<open>predict\<close> on the \<open>k\<close>-th vector alone. When \<open>predict\<close> raises on a vector
  and returned on all vectors before it, the whole call raises that exception and no
  result is returned. The state is left as it was.
\<close>

theorem predict_batch_sequential:
  "(fst (predict_batch s fl) = Inr rs \<longleftrightarrow>
      length rs = length fl \<and> (\<forall>k<length fl. fst (predict s (fl ! k)) = Inr (rs ! k))) \<and>
   (\<forall>k<length fl. \<forall>e. fst (predict s (fl ! k)) = Inl e \<and>
        (\<forall>j<k. \<exists>r. fst (predict s (fl ! j)) = Inr r) \<longrightarrow>
      fst (predict_batch s fl) = Inl e) \<and>
   snd (predict_batch s fl) = s"
proof -
  have "fst (predict_batch s fl) = Inr rs \<longleftrightarrow>
      length rs = length fl \<and> (\<forall>k<length fl. fst (predict s (fl ! k)) = Inr (rs ! k))"
    unfolding predict_batch_Inr_iff list_all2_conv_all_nth by auto
  then show ?thesis
    using predict_batch_first_error [of _ fl s] predict_batch_keeps_state [of s fl] by blast
qed


theorem predict_batch_sequential_witness:
  "fst (predict_batch (snd (load_model artifacts_complete initial))
          [features_of reference_sample, features_of reference_sample]) =
     Inr [(''setosa'', 1, [(''setosa'', 1), (''versicolor'', 0), (''virginica'', 0)]),
          (''setosa'', 1, [(''setosa'', 1), (''versicolor'', 0), (''virginica'', 0)])] \<and>
   fst (predict initial (features_of reference_sample)) =
     Inl (Exn RuntimeError ''Model not loaded. Call load_model() first.'') \<and>
   fst (predict_batch initial [features_of reference_sample, features_of reference_sample]) =
     Inl (Exn RuntimeError ''Model not loaded. Call load_model() first.'')"
proof -
  let ?S = "snd (load_model artifacts_complete initial)"
  let ?x = "features_of reference_sample"
  let ?p = "(''setosa'', 1::real, [(''setosa'', 1::real), (''versicolor'', 0), (''virginica'', 0)])"
  have a: "\<forall>k<length [?x, ?x]. fst (predict ?S ([?x, ?x] ! k)) = Inr ([?p, ?p] ! k)"
    by (simp add: predict_loaded_complete less_Suc_eq)
  have b: "fst (predict initial ?x) =
      Inl (Exn RuntimeError ''Model not loaded. Call load_model() first.'')"
    by (simp add: predict_def initial_def)
  have c: "fst (predict_batch initial [?x, ?x]) =
      Inl (Exn RuntimeError ''Model not loaded. Call load_model() first.'')"
    using b
      predict_batch_sequential [of initial "[?x, ?x]" "[]", THEN conjunct2, THEN conjunct1,
        rule_format, of 0 "Exn RuntimeError ''Model not loaded. Call load_model() first.''"]
    by simp
  have d: "fst (predict_batch ?S [?x, ?x]) = Inr [?p, ?p]"
    using a predict_batch_sequential [of ?S "[?x, ?x]" "[?p, ?p]", THEN conjunct1]
    by simp
  show ?thesis
    using b c d by simp
qed

section \<open>Prediction\<close>

lemma dict_set_fresh: "k \<notin> fst ` set d \<Longrightarrow> dict_set k v d = d @ [(k, v)]"
  by (induction d) auto

lemma fold_dict_set_distinct:
  "distinct (map fst (d @ xs)) \<Longrightarrow> fold (\<lambda>(k, v) d. dict_set k v d) xs d = d @ xs"
proof (induction xs arbitrary: d)
  case Nil
  show ?case by simp
next
  case (Cons x xs)
  obtain k v where x: "x = (k, v)" by (cases x)
  from Cons.prems have fresh: "k \<notin> fst ` set d" by (auto simp: x)
  from Cons.prems have "distinct (map fst ((d @ [(k, v)]) @ xs))" by (simp add: x)
  from Cons.IH [OF this] show ?case by (simp add: x dict_set_fresh [OF fresh])
qed

lemma dict_of_distinct: "distinct (map fst xs) \<Longrightarrow> dict_of xs = xs"
  using fold_dict_set_distinct [of "[]" xs] by (simp add: dict_of_def)

lemma norm_index_bound: "norm_index n i = Some j \<Longrightarrow> j < n"
  by (auto simp: norm_index_def split: if_splits)

lemma norm_index_nonneg: "norm_index n i = Some j \<Longrightarrow> 0 \<le> i \<Longrightarrow> j = nat i"
  by (auto simp: norm_index_def split: if_splits)

lemma predict_resolved:
  assumes "model s = Some m" "metadata s = Some md"
    and "m_predict m x = Inr i" "m_predict_proba m x = Inr ps"
    and "dict_get md ''target_names'' synthetic_names = PyList ns"
    and "norm_index (length ns) i = Some j" "norm_index (length ps) i = Some k"
  shows "predict s x = (Inr (ns ! j, ps ! k, dict_of (zip ns ps)), s)"
  by (simp add: predict_def Let_def assms ndarray_getitem_def)

lemma dict_get_absent: "map_of md k = None \<Longrightarrow> dict_get md k d = d"
  by (simp add: dict_get_def)

lemma dict_get_present: "map_of md k = Some v \<Longrightarrow> dict_get md k d = v"
  by (simp add: dict_get_def)

text \<open>
  Claim C1, as amended. Let the service hold a model and a metadata dictionary, let the
  model answer the feature vector with the class index \<open>i\<close> and the probabilities
  \<open>ps\<close>, and let \<open>ns\<close> be the class names in use: the list under
  \<^verbatim>\<open>target_names\<close> in the metadata, or the three synthetic names when the metadata
  has no such key. When \<open>i\<close> is a valid subscript of \<open>ns\<close> and of \<open>ps\<close>, \<open>predict\<close>
  returns the name at \<open>i\<close>, the probability at \<open>i\<close> as the confidence, and the dictionary
  built from the names and the probabilities. The confidence is the probability of the
  index the model answered; it is the highest probability when no probability exceeds the
  one at that index, which \<open>predict\<close> itself neither computes nor checks.
\<close>

theorem predict_class_and_confidence:
  assumes "model s = Some m" "metadata s = Some md"
    and "m_predict m x = Inr i" "m_predict_proba m x = Inr ps"
    and "dict_get md ''target_names'' synthetic_names = PyList ns"
    and "norm_index (length ns) i = Some j" "norm_index (length ps) i = Some k"
  shows "predict s x = (Inr (ns ! j, ps ! k, dict_of (zip ns ps)), s) \<and>
         j < length ns \<and> k < length ps \<and>
         (0 \<le> i \<longrightarrow> j = nat i \<and> k = nat i) \<and>
         (map_of md ''target_names'' = None \<longrightarrow> ns = [''class_0'', ''class_1'', ''class_2'']) \<and>
         (\<forall>names. map_of md ''target_names'' = Some (PyList names) \<longrightarrow> ns = names) \<and>
         ((\<forall>p \<in> set ps. p \<le> ps ! k) \<longrightarrow> ps ! k = Max (set ps))"
proof -
  have k: "k < length ps" using assms(7) by (rule norm_index_bound)
  have j: "j < length ns" using assms(6) by (rule norm_index_bound)
  have mx: "ps ! k = Max (set ps)" if "\<forall>p \<in> set ps. p \<le> ps ! k"
  proof -
    have "ps ! k \<in> set ps" using k by simp
    with that show ?thesis by (intro Max_eqI [symmetric]) auto
  qed
  have d1: "ns = [''class_0'', ''class_1'', ''class_2'']" if "map_of md ''target_names'' = None"
    using assms(5) dict_get_absent [OF that, of synthetic_names]
    by (simp add: synthetic_names_def)
  have d2: "ns = names" if "map_of md ''target_names'' = Some (PyList names)" for names
    using assms(5) dict_get_present [OF that, of synthetic_names] by simp
  show ?thesis
    using predict_resolved [OF assms] j k mx d1 d2
      norm_index_nonneg [OF assms(6)] norm_index_nonneg [OF assms(7)]
    by blast
qed

lemma loaded_skewed:
  "model (snd (load_model artifacts_skewed initial)) = Some (const_model 0 [1 / 5, 4 / 5, 0])"
  "metadata (snd (load_model artifacts_skewed initial)) = Some iris_metadata"
  "fst (load_model artifacts_skewed initial) = Inr ()"
  by (simp_all add: load_model_def Let_def initial_def artifacts_skewed_def emit_def)

lemma iris_target_names:
  "dict_get iris_metadata ''target_names'' synthetic_names =
     PyList [''setosa'', ''versicolor'', ''virginica'']"
  by (simp add: dict_get_def iris_metadata_def)

theorem predict_class_and_confidence_witness:
  "predict (snd (load_model artifacts_complete initial)) (features_of reference_sample) =
     (Inr (''setosa'', 1, [(''setosa'', 1), (''versicolor'', 0), (''virginica'', 0)]),
      snd (load_model artifacts_complete initial)) \<and>
   (1::real) = Max (set [1, 0, 0])"
proof -
  have i: "norm_index (length [''setosa'', ''versicolor'', ''virginica'']) 0 = Some 0"
    and k: "norm_index (length [1::real, 0, 0]) 0 = Some 0"
    by (simp_all add: norm_index_def)
  have "\<forall>p \<in> set [1::real, 0, 0]. p \<le> [1, 0, 0] ! 0" by simp
  then show ?thesis
    using predict_class_and_confidence [OF loaded_complete(1) loaded_complete(2) _ _
        iris_target_names i k, of "features_of reference_sample"]
    by (simp add: const_model_def dict_of_def)
qed

text \<open>
  The claim as first stated says that the confidence is always the highest probability.
  With a model that answers index 0 and the probabilities 0.2, 0.8, 0, \<open>predict\<close>
  returns the first class with confidence 0.2, below the highest probability 0.8.
\<close>

theorem predict_confidence_not_highest_counterexample:
  "fst (load_model artifacts_skewed initial) = Inr () \<and>
   m_predict (const_model 0 [1 / 5, 4 / 5, 0]) (features_of reference_sample) = Inr 0 \<and>
   m_predict_proba (const_model 0 [1 / 5, 4 / 5, 0]) (features_of reference_sample) =
     Inr [1 / 5, 4 / 5, 0] \<and>
   fst (predict (snd (load_model artifacts_skewed initial)) (features_of reference_sample)) =
     Inr (''setosa'', 1 / 5, [(''setosa'', 1 / 5), (''versicolor'', 4 / 5), (''virginica'', 0)]) \<and>
   (1 / 5 :: real) < Max (set [1 / 5, 4 / 5, 0])"
  by (simp add: predict_def loaded_skewed const_model_def iris_metadata_def dict_get_def
      synthetic_names_def norm_index_def ndarray_getitem_def dict_of_def Let_def)

text \<open>
  Claim C2, as amended. For every valid input, let the loaded model answer with a class
  index \<open>i\<close> and probabilities \<open>ps\<close>, and let \<open>ns\<close> be the class names in use (the
  metadata's \<^verbatim>\<open>target_names\<close>, or the synthetic names when the metadata has none).
  If the names are distinct, there is one probability per name, each between 0 and 1,
  their sum is within \<open>eps\<close> of 1, and \<open>i\<close> is a valid subscript of \<open>ns\<close>, then
  \<open>predict\<close> returns a class name of \<open>ns\<close>, a confidence between 0 and 1, and a mapping
  whose keys are exactly \<open>ns\<close>, in order, and whose values are exactly \<open>ps\<close>, so that
  they sum to 1 within the same \<open>eps\<close>.
\<close>

theorem predict_output_wellformed:
  assumes "valid_input inp"
    and "model s = Some m" "metadata s = Some md"
    and "m_predict m (features_of inp) = Inr i" "m_predict_proba m (features_of inp) = Inr ps"
    and "dict_get md ''target_names'' synthetic_names = PyList ns"
    and "distinct ns" "length ps = length ns"
    and "norm_index (length ns) i = Some j"
    and "\<forall>p \<in> set ps. 0 \<le> p \<and> p \<le> 1"
    and "\<bar>sum_list ps - 1\<bar> \<le> eps"
  shows "predict s (features_of inp) = (Inr (ns ! j, ps ! j, zip ns ps), s) \<and>
         ns ! j \<in> set ns \<and> 0 \<le> ps ! j \<and> ps ! j \<le> 1 \<and>
         map fst (zip ns ps) = ns \<and> map snd (zip ns ps) = ps \<and>
         \<bar>sum_list (map snd (zip ns ps)) - 1\<bar> \<le> eps"
proof -
  have k: "norm_index (length ps) i = Some j" using assms(8,9) by simp
  have j: "j < length ns" using assms(9) by (rule norm_index_bound)
  have run: "predict s (features_of inp) = (Inr (ns ! j, ps ! j, dict_of (zip ns ps)), s)"
    by (rule predict_resolved [OF assms(2) assms(3) assms(4) assms(5) assms(6) assms(9) k])
  have "distinct (map fst (zip ns ps))" using assms(7,8) by simp
  then have d: "dict_of (zip ns ps) = zip ns ps" by (rule dict_of_distinct)
  have "ps ! j \<in> set ps" using j assms(8) by simp
  with assms(10) have c: "0 \<le> ps ! j \<and> ps ! j \<le> 1" by blast
  have "ns ! j \<in> set ns" using j by simp
  then show ?thesis
    using run d c assms(8,11) by simp
qed

theorem predict_output_wellformed_witness:
  "valid_input reference_sample \<and>
   predict (snd (load_model artifacts_skewed initial)) (features_of reference_sample) =
     (Inr (''setosa'', 1 / 5, [(''setosa'', 1 / 5), (''versicolor'', 4 / 5), (''virginica'', 0)]),
      snd (load_model artifacts_skewed initial))"
proof -
  have v: "valid_input reference_sample"
    by (simp add: valid_input_def reference_sample_def)
  have i: "norm_index (length [''setosa'', ''versicolor'', ''virginica'']) 0 = Some 0"
    by (simp add: norm_index_def)
  have p: "\<forall>p \<in> set [1 / 5, 4 / 5, 0::real]. 0 \<le> p \<and> p \<le> 1" by simp
  have e: "\<bar>sum_list [1 / 5, 4 / 5, 0::real] - 1\<bar> \<le> 0" by simp
  have m1: "m_predict (const_model 0 [1 / 5, 4 / 5, 0]) (features_of reference_sample) = Inr 0"
    and m2: "m_predict_proba (const_model 0 [1 / 5, 4 / 5, 0]) (features_of reference_sample) =
      Inr [1 / 5, 4 / 5, 0]"
    by (simp_all add: const_model_def)
  show ?thesis
    using v predict_output_wellformed [OF v loaded_skewed(1) loaded_skewed(2) m1 m2
        iris_target_names _ _ i p e]
    by simp
qed

text \<open>
  The claim as first stated places the returned class name in the class list of the
  metadata. After a load without a metadata file the metadata is the empty dictionary,
  \<open>health_check\<close> reports an empty class list, and \<open>predict\<close> returns the synthetic
  name \<^verbatim>\<open>class_0\<close>.
\<close>

theorem predict_class_outside_metadata_counterexample:
  "valid_input reference_sample \<and>
   fst (load_model artifacts_no_metadata initial) = Inr () \<and>
   metadata (snd (load_model artifacts_no_metadata initial)) = Some [] \<and>
   fst (predict (snd (load_model artifacts_no_metadata initial)) (features_of reference_sample)) =
     Inr (''class_0'', 1, [(''class_0'', 1), (''class_1'', 0), (''class_2'', 0)]) \<and>
   map_of (model_info (projr (fst (health_check (snd (load_model artifacts_no_metadata initial))))))
     ''classes'' = Some (PyList [])"
  by (simp add: valid_input_def reference_sample_def predict_def loaded_no_metadata
      const_model_def dict_get_def synthetic_names_def norm_index_def ndarray_getitem_def
      dict_of_def Let_def health_check_def get_metadata_eq is_loaded_eq)

section \<open>Health\<close>

lemma health_check_eq:
  "health_check s =
     (Inr \<lparr>status = (if model s \<noteq> None then ''healthy'' else ''unhealthy''),
           model_loaded = (model s \<noteq> None),
           model_info =
             [(''accuracy'', dict_get (case metadata s of None \<Rightarrow> [] | Some md \<Rightarrow> md)
                              ''accuracy'' (PyStr ''unknown'')),
              (''features'', dict_get (case metadata s of None \<Rightarrow> [] | Some md \<Rightarrow> md)
                              ''feature_names'' (PyList [])),
              (''classes'', dict_get (case metadata s of None \<Rightarrow> [] | Some md \<Rightarrow> md)
                             ''target_names'' (PyList [])),
              (''n_features'', dict_get (case metadata s of None \<Rightarrow> [] | Some md \<Rightarrow> md)
                                ''n_features'' (PyInt 0))]\<rparr>, s)"
  by (simp add: health_check_def get_metadata_eq is_loaded_eq)

text \<open>
  Claim C7, as amended. \<open>health_check\<close> reports the load state truthfully: with no model
  loaded it answers \<^verbatim>\<open>unhealthy\<close> and \<^verbatim>\<open>model_loaded = false\<close>, with a model
  loaded \<^verbatim>\<open>healthy\<close> and \<^verbatim>\<open>model_loaded = true\<close>. After a successful load of
  an unloaded service, the feature and class lists of \<^verbatim>\<open>model_info\<close> are the ones
  of the metadata file (the empty list for a key the file lacks), and both are empty when
  the metadata file was absent.
\<close>

theorem health_reports_load_state:
  "(model s = None \<longrightarrow>
      (\<exists>info. health_check s =
         (Inr \<lparr>status = ''unhealthy'', model_loaded = False, model_info = info\<rparr>, s))) \<and>
   (model s \<noteq> None \<longrightarrow>
      (\<exists>info. health_check s =
         (Inr \<lparr>status = ''healthy'', model_loaded = True, model_info = info\<rparr>, s))) \<and>
   (model s = None \<longrightarrow> fst (load_model fs s) = Inr () \<longrightarrow>
      (\<exists>acc n. fst (health_check (snd (load_model fs s))) =
         Inr \<lparr>status = ''healthy'', model_loaded = True,
              model_info =
                [(''accuracy'', acc),
                 (''features'', case metadata_file fs of
                                  None \<Rightarrow> PyList []
                                | Some md \<Rightarrow> dict_get md ''feature_names'' (PyList [])),
                 (''classes'', case metadata_file fs of
                                 None \<Rightarrow> PyList []
                               | Some md \<Rightarrow> dict_get md ''target_names'' (PyList [])),
                 (''n_features'', n)]\<rparr>))"
proof -
  have after: "\<exists>acc n. fst (health_check (snd (load_model fs s))) =
         Inr \<lparr>status = ''healthy'', model_loaded = True,
              model_info =
                [(''accuracy'', acc),
                 (''features'', case metadata_file fs of
                                  None \<Rightarrow> PyList []
                                | Some md \<Rightarrow> dict_get md ''feature_names'' (PyList [])),
                 (''classes'', case metadata_file fs of
                                 None \<Rightarrow> PyList []
                               | Some md \<Rightarrow> dict_get md ''target_names'' (PyList [])),
                 (''n_features'', n)]\<rparr>"
    if u: "model s = None" and ok: "fst (load_model fs s) = Inr ()"
  proof (cases "model_file fs")
    case None
    with ok show ?thesis by (simp add: load_model_absent [OF u None])
  next
    case (Some m)
    note p = load_model_present [OF u Some]
    show ?thesis
      by (cases "metadata_file fs") (simp_all add: health_check_eq p dict_get_def)
  qed
  show ?thesis
    using after by (simp add: health_check_eq)
qed

theorem health_reports_load_state_witness:
  "model initial = None \<and>
   fst (health_check initial) =
     Inr \<lparr>status = ''unhealthy'', model_loaded = False,
          model_info = [(''accuracy'', PyStr ''unknown''), (''features'', PyList []),
                        (''classes'', PyList []), (''n_features'', PyInt 0)]\<rparr> \<and>
   fst (load_model artifacts_complete initial) = Inr () \<and>
   fst (health_check (snd (load_model artifacts_complete initial))) =
     Inr \<lparr>status = ''healthy'', model_loaded = True,
          model_info =
            [(''accuracy'', PyFloat (9 / 10)),
             (''features'', PyList [''sepal length (cm)'', ''sepal width (cm)'',
                                    ''petal length (cm)'', ''petal width (cm)'']),
             (''classes'', PyList [''setosa'', ''versicolor'', ''virginica'']),
             (''n_features'', PyInt 4)]\<rparr>"
proof -
  have i: "model initial = None" "metadata initial = None"
    by (simp_all add: initial_def)
  show ?thesis
    using health_reports_load_state [of initial artifacts_complete]
    by (simp add: health_check_eq loaded_complete i iris_metadata_def dict_get_def)
qed

text \<open>
  The claim as first stated promises non-empty feature and class lists after every
  successful load. A load with the model file present and the metadata file absent
  succeeds, and the health response then carries two empty lists.
\<close>

theorem health_after_load_empty_lists_counterexample:
  "fst (load_model artifacts_no_metadata initial) = Inr () \<and>
   fst (health_check (snd (load_model artifacts_no_metadata initial))) =
     Inr \<lparr>status = ''healthy'', model_loaded = True,
          model_info = [(''accuracy'', PyStr ''unknown''), (''features'', PyList []),
                        (''classes'', PyList []), (''n_features'', PyInt 0)]\<rparr>"
  by (simp add: health_check_eq loaded_no_metadata dict_get_def)

end
